theory Spec2Isabelle
  imports Main "HOL-Library.Word"
begin

section \<open>The TeamCity client: construction, service derivation, validation, tracing\<close>

text \<open>
  A shallow embedding of \<^verbatim>\<open>pkg/teamcity/teamcity.go\<close>. The file mutates two package
  globals, allocates request templates behind pointers and writes to standard output
  and to the log, so every operation is a function of an explicit \<open>world\<close> and returns
  the world it leaves behind. What the operating system, the network and the HTTP
  library answer is not decided by this file; it is a parameter, the \<open>platform\<close>.
\<close>

subsection \<open>Errors, panics and values of interface type\<close>

text \<open>
  Go's \<^verbatim>\<open>error\<close> values. \<open>Errorf\<close> is an error built by \<^verbatim>\<open>fmt.Errorf\<close> in this file;
  \<open>Foreign\<close> is an error value handed over by the platform (transport, body reader,
  dump serializer). \<open>Error\<close> is the method \<^verbatim>\<open>Error()\<close>, used by the format verb \<^verbatim>\<open>%s\<close>.
\<close>

datatype error = Errorf string | Foreign string

fun Error :: "error \<Rightarrow> string" where
  "Error (Errorf m) = m"
| "Error (Foreign m) = m"

text \<open>A run-time panic: a method called through a nil pointer, or a failed type assertion.\<close>

datatype panic = NilPointerDereference | InterfaceConversion

text \<open>A value of type \<^verbatim>\<open>interface{}\<close>, by its dynamic type.\<close>

datatype go_value = GoNil | GoString string | GoInt int | GoBool bool | GoBytes string

subsection \<open>HTTP messages and the platform\<close>

record request =
  req_method :: string
  req_url :: string
  req_header :: "string \<rightharpoonup> string"

text \<open>
  A response as \<^verbatim>\<open>Validate\<close> reads it: the status code, the status line, and what
  \<^verbatim>\<open>ioutil.ReadAll\<close> returns for its body (the bytes and the error, nil as \<open>None\<close>).
\<close>

record response =
  StatusCode :: int
  Status :: string
  resp_Body :: "string \<times> error option"

text \<open>
  The platform: the process environment, the transport under the tracing interceptor
  (an error or a response for each request), and the two dump serializers of
  \<^verbatim>\<open>net/http/httputil\<close>. A serializer is handed the live message through a pointer
  and is asked for the body too, which it drains and replaces; so besides the bytes
  and the error that it returns in Go, it yields the message as the call leaves it.

  \<open>LocatorID\<close>, the function of this package that turns an identifier into the
  API's locator syntax, is not in the file; the spec leaves it to a collaborator,
  so it is a parameter here.
\<close>

record platform =
  environ :: "string \<rightharpoonup> string"
  transport :: "request \<Rightarrow> error + response"
  DumpRequest :: "request \<Rightarrow> (string \<times> error option) \<times> request"
  DumpResponse :: "response \<Rightarrow> (string \<times> error option) \<times> response"
  LocatorID :: "string \<Rightarrow> string"

text \<open>\<^verbatim>\<open>os.Getenv\<close>: the value of the variable, empty when it is not set.\<close>

definition os_Getenv :: "platform \<Rightarrow> string \<Rightarrow> string" where
  "os_Getenv p k = (case environ p k of None \<Rightarrow> [] | Some v \<Rightarrow> v)"

subsection \<open>The world: globals, allocated templates, observable effects\<close>

text \<open>
  Modelled from the spec: the request template (\<^verbatim>\<open>sling.Sling\<close>) is not in the file.
  The spec gives it a base URL and a key-unique map of default headers, the
  credentials being one of the headers.
\<close>

record Sling =
  rawURL :: string
  header :: "string \<rightharpoonup> string"

type_synonym ref = nat

datatype event =
    Wire request
  | ReadAll
  | Stdout string
  | LogPrintf string

record world =
  DebugRequests :: bool
  DebugResponses :: bool
  slings :: "Sling list"
  trace :: "event list"

text \<open>The state at program start: \<^verbatim>\<open>var DebugRequests = false\<close>, \<^verbatim>\<open>var DebugResponses = false\<close>.\<close>

definition initial_world :: world where
  "initial_world = \<lparr>DebugRequests = False, DebugResponses = False, slings = [], trace = []\<rparr>"

definition emit :: "event \<Rightarrow> world \<Rightarrow> world" where
  "emit e w = w\<lparr>trace := trace w @ [e]\<rparr>"

text \<open>Following a pointer to a template: nil and an address never allocated have no target.\<close>

fun deref :: "world \<Rightarrow> ref option \<Rightarrow> Sling option" where
  "deref w None = None"
| "deref w (Some r) = (if r < length (slings w) then Some (slings w ! r) else None)"

definition alloc :: "Sling \<Rightarrow> world \<Rightarrow> ref \<times> world" where
  "alloc s w = (length (slings w), w\<lparr>slings := slings w @ [s]\<rparr>)"

definition store :: "ref \<Rightarrow> Sling \<Rightarrow> world \<Rightarrow> world" where
  "store r s w = w\<lparr>slings := (slings w)[r := s]\<rparr>"

subsection \<open>The request template\<close>

text \<open>
  The methods of \<^verbatim>\<open>sling.Sling\<close> are not in the file; each is modelled from what the
  spec says of the request template. A template is built once and specialised by
  its builder methods, which the file calls in a chain on a pointer.
\<close>

text \<open>
  Modelled from the spec: the encoding of the credentials is not in the file. The
  spec names HTTP Basic Authentication: the base64 encoding of user name, colon,
  password.
\<close>

definition b64chars :: string where
  "b64chars = ''ABCDEFGHIJKLMNOPQRSTUVWXYZabcdefghijklmnopqrstuvwxyz0123456789+/''"

definition b64char :: "nat \<Rightarrow> char" where
  "b64char n = b64chars ! (n mod 64)"

fun base64 :: "nat list \<Rightarrow> string" where
  "base64 [] = []"
| "base64 [a] = [b64char (a div 4), b64char ((a mod 4) * 16), CHR ''='', CHR ''='']"
| "base64 [a, b] =
     [b64char (a div 4), b64char ((a mod 4) * 16 + b div 16), b64char ((b mod 16) * 4),
      CHR ''='']"
| "base64 (a # b # c # bs) =
     b64char (a div 4) # b64char ((a mod 4) * 16 + b div 16) #
     b64char ((b mod 16) * 4 + c div 64) # b64char (c mod 64) # base64 bs"

definition basicAuth :: "string \<Rightarrow> string \<Rightarrow> string" where
  "basicAuth username password = base64 (map of_char (username @ '':'' @ password))"

text \<open>
  Modelled from the spec: \<^verbatim>\<open>sling.New()\<close> is not in the file. It allocates a new
  template with no URL and no header.
\<close>

definition sling_New :: "world \<Rightarrow> ref \<times> world" where
  "sling_New w = alloc \<lparr>rawURL = [], header = Map.empty\<rparr> w"

text \<open>Modelled from the spec: \<^verbatim>\<open>Base\<close> is not in the file. It sets the base URL.\<close>

definition Sling_Base :: "string \<Rightarrow> Sling \<Rightarrow> Sling" where
  "Sling_Base url s = s\<lparr>rawURL := url\<rparr>"

text \<open>
  Modelled from the spec: \<^verbatim>\<open>Set\<close> is not in the file. It stores a default header;
  the header map is key-unique, so an earlier value of the key is replaced.
\<close>

definition Sling_Set :: "string \<Rightarrow> string \<Rightarrow> Sling \<Rightarrow> Sling" where
  "Sling_Set key val s = s\<lparr>header := (header s)(key \<mapsto> val)\<rparr>"

text \<open>
  Modelled from the spec: \<^verbatim>\<open>SetBasicAuth\<close> is not in the file. It sets the Basic
  authentication header for the credentials.
\<close>

definition Sling_SetBasicAuth :: "string \<Rightarrow> string \<Rightarrow> Sling \<Rightarrow> Sling" where
  "Sling_SetBasicAuth username password s =
     Sling_Set ''Authorization'' (''Basic '' @ basicAuth username password) s"

text \<open>
  Modelled from the spec: \<^verbatim>\<open>Path\<close> is not in the file. It appends a path segment to
  the template's effective path.
\<close>

definition Sling_Path :: "string \<Rightarrow> Sling \<Rightarrow> Sling" where
  "Sling_Path path s = s\<lparr>rawURL := rawURL s @ path\<rparr>"

text \<open>
  Modelled from the spec: \<^verbatim>\<open>Get\<close> is not in the file. It is a read of an endpoint
  under the template; the template stays as it is, since the spec has a Client
  never mutated after construction.
\<close>

definition Sling_Get :: "string \<Rightarrow> Sling \<Rightarrow> request" where
  "Sling_Get pathURL s =
     \<lparr>req_method = ''GET'', req_url = rawURL s @ pathURL, req_header = header s\<rparr>"

text \<open>
  A builder method called through a pointer updates the template it points to and
  returns the same pointer; through nil, or a pointer to nothing, it panics.
\<close>

definition through :: "(Sling \<Rightarrow> Sling) \<Rightarrow> ref \<Rightarrow> world \<Rightarrow> panic + ref \<times> world" where
  "through f r w =
     (case deref w (Some r) of
        None \<Rightarrow> Inl NilPointerDereference
      | Some s \<Rightarrow> Inr (r, store r (f s) w))"

text \<open>
  Modelled from the spec: the method \<^verbatim>\<open>New\<close> of a template is not in the file. It
  clones the template: a new, independently owned instance that copies all current
  state, with no shared mutable backing.
\<close>

definition Sling_New :: "ref option \<Rightarrow> world \<Rightarrow> panic + ref \<times> world" where
  "Sling_New r w =
     (case deref w r of
        None \<Rightarrow> Inl NilPointerDereference
      | Some s \<Rightarrow> Inr (alloc \<lparr>rawURL = rawURL s, header = header s\<rparr> w))"

text \<open>Sequencing of operations that may panic.\<close>

definition bind ::
  "(world \<Rightarrow> panic + 'a \<times> world) \<Rightarrow> ('a \<Rightarrow> world \<Rightarrow> panic + 'b \<times> world) \<Rightarrow>
   world \<Rightarrow> panic + 'b \<times> world" where
  "bind m f w = (case m w of Inl x \<Rightarrow> Inl x | Inr (a, w') \<Rightarrow> f a w')"

definition ret :: "'a \<Rightarrow> world \<Rightarrow> panic + 'a \<times> world" where
  "ret a w = Inr (a, w)"

subsection \<open>Services\<close>

text \<open>\<^verbatim>\<open>*http.Client\<close> is an opaque handle, possibly nil.\<close>

type_synonym http_Client = "nat option"

text \<open>
  Modelled from the spec: the service types and their constructors
  (\<^verbatim>\<open>newProjectService\<close>, \<^verbatim>\<open>newBuildTypeService\<close>, \<^verbatim>\<open>newServerService\<close>,
  \<^verbatim>\<open>newVcsRootService\<close>, \<^verbatim>\<open>newAgentRequirementService\<close>, \<^verbatim>\<open>newBuildFeatureService\<close>,
  \<^verbatim>\<open>NewDependencyService\<close>, \<^verbatim>\<open>newTriggerService\<close>) are not in the file. From the spec, a
  service holds the cloned template it is given and a reference to the shared
  transport; an identifier-scoped one also holds its identifier. Only the field
  \<open>base\<close> of \<^verbatim>\<open>ParameterService\<close> is visible in the file.
\<close>

record Service =
  svc_sling :: "ref option"
  svc_httpClient :: http_Client

type_synonym ProjectService = Service
type_synonym BuildTypeService = Service
type_synonym VcsRootService = Service

record ServerService =
  server_sling :: "ref option"

record ParameterService =
  base :: "ref option"

record ScopedService =
  scoped_id :: string
  scoped_httpClient :: http_Client
  scoped_base :: "ref option"

type_synonym AgentRequirementService = ScopedService
type_synonym BuildFeatureService = ScopedService
type_synonym DependencyService = ScopedService
type_synonym TriggerService = ScopedService

definition newProjectService :: "ref \<Rightarrow> http_Client \<Rightarrow> ProjectService" where
  "newProjectService s client = \<lparr>svc_sling = Some s, svc_httpClient = client\<rparr>"

definition newBuildTypeService :: "ref \<Rightarrow> http_Client \<Rightarrow> BuildTypeService" where
  "newBuildTypeService s client = \<lparr>svc_sling = Some s, svc_httpClient = client\<rparr>"

definition newServerService :: "ref \<Rightarrow> ServerService" where
  "newServerService s = \<lparr>server_sling = Some s\<rparr>"

definition newVcsRootService :: "ref \<Rightarrow> http_Client \<Rightarrow> VcsRootService" where
  "newVcsRootService s client = \<lparr>svc_sling = Some s, svc_httpClient = client\<rparr>"

definition newAgentRequirementService ::
  "string \<Rightarrow> http_Client \<Rightarrow> ref \<Rightarrow> AgentRequirementService" where
  "newAgentRequirementService buildTypeID client s =
     \<lparr>scoped_id = buildTypeID, scoped_httpClient = client, scoped_base = Some s\<rparr>"

definition newBuildFeatureService ::
  "string \<Rightarrow> http_Client \<Rightarrow> ref \<Rightarrow> BuildFeatureService" where
  "newBuildFeatureService buildTypeID client s =
     \<lparr>scoped_id = buildTypeID, scoped_httpClient = client, scoped_base = Some s\<rparr>"

definition NewDependencyService ::
  "string \<Rightarrow> http_Client \<Rightarrow> ref \<Rightarrow> DependencyService" where
  "NewDependencyService buildTypeID client s =
     \<lparr>scoped_id = buildTypeID, scoped_httpClient = client, scoped_base = Some s\<rparr>"

definition newTriggerService ::
  "string \<Rightarrow> http_Client \<Rightarrow> ref \<Rightarrow> TriggerService" where
  "newTriggerService buildTypeID client s =
     \<lparr>scoped_id = buildTypeID, scoped_httpClient = client, scoped_base = Some s\<rparr>"

subsection \<open>The Client and its constructors\<close>

text \<open>
  The struct \<^verbatim>\<open>Client\<close>. A pointer field is \<open>None\<close> when nil; \<^verbatim>\<open>time.Duration\<close> is a
  64-bit integer. A field the struct literal of \<^verbatim>\<open>newClientInstance\<close> does not name
  keeps its zero value.
\<close>

record Client =
  userName :: string
  password :: string
  address :: string
  baseURI :: string
  HTTPClient :: http_Client
  RetryTimeout :: "64 word"
  commonBase :: "ref option"
  Projects :: "ProjectService option"
  BuildTypes :: "BuildTypeService option"
  Server :: "ServerService option"
  VcsRoots :: "VcsRootService option"
  Parameters :: "ParameterService option"

definition newClientInstance ::
  "string \<Rightarrow> string \<Rightarrow> string \<Rightarrow> http_Client \<Rightarrow> world \<Rightarrow>
   panic + (error + Client) \<times> world" where
  "newClientInstance userName' password' address' httpClient =
     bind (\<lambda>w. Inr (sling_New w)) (\<lambda>s0.
     bind (through (Sling_Base (address' @ ''/httpAuth/app/rest/'')) s0) (\<lambda>s1.
     bind (through (Sling_SetBasicAuth userName' password') s1) (\<lambda>s2.
     bind (through (Sling_Set ''Accept'' ''application/json'') s2) (\<lambda>sharedClient.
     bind (Sling_New (Some sharedClient)) (\<lambda>projects.
     bind (Sling_New (Some sharedClient)) (\<lambda>buildTypes.
     bind (Sling_New (Some sharedClient)) (\<lambda>server.
     bind (Sling_New (Some sharedClient)) (\<lambda>vcsRoots.
     ret (Inr
       \<lparr>userName = userName',
        password = password',
        address = address',
        baseURI = [],
        HTTPClient = httpClient,
        RetryTimeout = 0,
        commonBase = Some sharedClient,
        Projects = Some (newProjectService projects httpClient),
        BuildTypes = Some (newBuildTypeService buildTypes httpClient),
        Server = Some (newServerService server),
        VcsRoots = Some (newVcsRootService vcsRoots httpClient),
        Parameters = None\<rparr>)))))))))"

definition New ::
  "platform \<Rightarrow> string \<Rightarrow> string \<Rightarrow> http_Client \<Rightarrow> world \<Rightarrow>
   panic + (error + Client) \<times> world" where
  "New p userName' password' httpClient w =
     (let address' = os_Getenv p ''TEAMCITY_ADDR'' in
      if address' = []
      then Inr (Inl (Errorf (''TEAMCITY_ADDR environment variable not set, specify address ''
                  @ ''explicit by setting the variable or using NewWithAddress constructor'')), w)
      else newClientInstance userName' password' address' httpClient w)"

definition NewWithAddress ::
  "string \<Rightarrow> string \<Rightarrow> string \<Rightarrow> http_Client \<Rightarrow> world \<Rightarrow>
   panic + (error + Client) \<times> world" where
  "NewWithAddress userName' password' address' httpClient w =
     (if address' = []
      then Inr (Inl (Errorf ''address is required''), w)
      else newClientInstance userName' password' address' httpClient w)"

subsection \<open>Identifier-scoped services\<close>

definition AgentRequirementService ::
  "Client \<Rightarrow> string \<Rightarrow> world \<Rightarrow> panic + AgentRequirementService \<times> world" where
  "AgentRequirementService c id' =
     bind (Sling_New (commonBase c)) (\<lambda>s.
     ret (newAgentRequirementService id' (HTTPClient c) s))"

definition BuildFeatureService ::
  "Client \<Rightarrow> string \<Rightarrow> world \<Rightarrow> panic + BuildFeatureService \<times> world" where
  "BuildFeatureService c id' =
     bind (Sling_New (commonBase c)) (\<lambda>s.
     ret (newBuildFeatureService id' (HTTPClient c) s))"

definition ProjectParameterService ::
  "platform \<Rightarrow> Client \<Rightarrow> string \<Rightarrow> world \<Rightarrow> panic + ParameterService \<times> world" where
  "ProjectParameterService p c id' =
     bind (Sling_New (commonBase c)) (\<lambda>s.
     bind (through (Sling_Path (''projects/'' @ LocatorID p id' @ ''/'')) s) (\<lambda>s'.
     ret \<lparr>base = Some s'\<rparr>))"

definition BuildTypeParameterService ::
  "platform \<Rightarrow> Client \<Rightarrow> string \<Rightarrow> world \<Rightarrow> panic + ParameterService \<times> world" where
  "BuildTypeParameterService p c id' =
     bind (Sling_New (commonBase c)) (\<lambda>s.
     bind (through (Sling_Path (''buildTypes/'' @ LocatorID p id' @ ''/'')) s) (\<lambda>s'.
     ret \<lparr>base = Some s'\<rparr>))"

definition DependencyService ::
  "Client \<Rightarrow> string \<Rightarrow> world \<Rightarrow> panic + DependencyService \<times> world" where
  "DependencyService c id' =
     bind (Sling_New (commonBase c)) (\<lambda>s.
     ret (NewDependencyService id' (HTTPClient c) s))"

definition TriggerService ::
  "Client \<Rightarrow> string \<Rightarrow> world \<Rightarrow> panic + TriggerService \<times> world" where
  "TriggerService c buildTypeID =
     bind (Sling_New (commonBase c)) (\<lambda>s.
     ret (newTriggerService buildTypeID (HTTPClient c) s))"

subsection \<open>The tracing hook\<close>

text \<open>
  \<^verbatim>\<open>debug\<close> takes the two results of a dump serializer: without an error the bytes and
  two newlines go to standard output, with one the error goes to the log.
\<close>

definition debug :: "string \<times> error option \<Rightarrow> world \<Rightarrow> world" where
  "debug r w =
     (case snd r of
        None \<Rightarrow> emit (Stdout (fst r @ [CHR 0x0A, CHR 0x0A])) w
      | Some err \<Rightarrow> emit (LogPrintf (''[ERROR] '' @ Error err @ [CHR 0x0A, CHR 0x0A])) w)"

text \<open>
  The two functions that \<^verbatim>\<open>init\<close> installs in \<^verbatim>\<open>loghttp.DefaultTransport\<close>. Each takes
  the message by pointer and returns nothing; the model returns the message as the
  hook leaves it, which is the one it was given unless the serializer was called.
\<close>

definition LogRequest :: "platform \<Rightarrow> request \<Rightarrow> world \<Rightarrow> request \<times> world" where
  "LogRequest p req w =
     (if DebugRequests w
      then (case DumpRequest p req of (r, req') \<Rightarrow> (req', debug r w))
      else (req, w))"

definition LogResponse :: "platform \<Rightarrow> response \<Rightarrow> world \<Rightarrow> response \<times> world" where
  "LogResponse p resp w =
     (if DebugResponses w
      then (case DumpResponse p resp of (r, resp') \<Rightarrow> (resp', debug r w))
      else (resp, w))"

text \<open>
  Modelled from the spec: the interceptor itself (\<^verbatim>\<open>loghttp.Transport\<close>) is not in the
  file. From the spec, it sees every request before it crosses the wire and every
  response after: it calls the request hook, hands the request to the transport as
  the hook left it, and on a response calls the response hook and hands the response
  back as that hook left it. It does nothing else to either.
\<close>

definition RoundTrip :: "platform \<Rightarrow> request \<Rightarrow> world \<Rightarrow> (error + response) \<times> world" where
  "RoundTrip p req w =
     (case LogRequest p req w of
        (req1, w1) \<Rightarrow>
          (case transport p req1 of
             Inl err \<Rightarrow> (Inl err, emit (Wire req1) w1)
           | Inr resp \<Rightarrow>
               (case LogResponse p resp (emit (Wire req1) w1) of
                  (resp1, w2) \<Rightarrow> (Inr resp1, w2))))"

subsection \<open>Validation\<close>

text \<open>
  Modelled from the spec: \<^verbatim>\<open>ReceiveSuccess\<close> of the template is not in the file; it
  issues the request through the intercepted transport and hands back the response
  or the transport's error.
\<close>

definition ReceiveSuccess :: "platform \<Rightarrow> request \<Rightarrow> world \<Rightarrow> (error + response) \<times> world" where
  "ReceiveSuccess p req w = RoundTrip p req w"

definition ioutil_ReadAll :: "response \<Rightarrow> world \<Rightarrow> (string \<times> error option) \<times> world" where
  "ioutil_ReadAll resp w = (resp_Body resp, emit ReadAll w)"

definition Validate ::
  "platform \<Rightarrow> Client \<Rightarrow> world \<Rightarrow> panic + (bool \<times> error option) \<times> world" where
  "Validate p c w =
     (case deref w (commonBase c) of
        None \<Rightarrow> Inl NilPointerDereference
      | Some root \<Rightarrow>
          (case ReceiveSuccess p (Sling_Get ''server'' root) w of
             (Inl err, w1) \<Rightarrow> Inr ((False, Some err), w1)
           | (Inr response, w1) \<Rightarrow>
               if StatusCode response \<noteq> 200 \<and> StatusCode response \<noteq> 403
               then (case ioutil_ReadAll response w1 of
                       ((body, Some err), w2) \<Rightarrow> Inr ((False, Some err), w2)
                     | ((body, None), w2) \<Rightarrow>
                         Inr ((False,
                               Some (Errorf (''API error '' @ Status response @ '': '' @ body))),
                              w2))
               else Inr ((True, None), w1)))"

subsection \<open>The plain-text body provider\<close>

record textPlainBodyProvider =
  payload :: go_value

definition ContentType :: "textPlainBodyProvider \<Rightarrow> string" where
  "ContentType p = ''text/plain; charset=utf-8''"

text \<open>
  \<^verbatim>\<open>p.payload.(string)\<close> panics unless the dynamic type is \<^verbatim>\<open>string\<close>. The reader
  returned is given by the text it reads.
\<close>

definition Body :: "textPlainBodyProvider \<Rightarrow> panic + string \<times> error option" where
  "Body p =
     (case payload p of
        GoString s \<Rightarrow> Inr (s, None)
      | _ \<Rightarrow> Inl InterfaceConversion)"

subsection \<open>Observations and example inputs\<close>

text \<open>
  The template that \<^verbatim>\<open>newClientInstance\<close> builds for given credentials and address,
  written out, and what it means for the default services to be populated.
\<close>

definition root_template :: "string \<Rightarrow> string \<Rightarrow> string \<Rightarrow> Sling" where
  "root_template userName' password' address' =
     \<lparr>rawURL = address' @ ''/httpAuth/app/rest/'',
      header = [''Authorization'' \<mapsto> ''Basic '' @ basicAuth userName' password',
                ''Accept'' \<mapsto> ''application/json'']\<rparr>"

definition default_services_populated :: "Client \<Rightarrow> bool" where
  "default_services_populated c =
     (Projects c \<noteq> None \<and> BuildTypes c \<noteq> None \<and> Server c \<noteq> None \<and> VcsRoots c \<noteq> None)"

text \<open>
  A stub platform for concrete runs: the address variable is set, the dump
  serializers succeed and leave the message as it was, and the locator of an
  identifier is \<open>id:\<close> followed by it.
\<close>

definition stub_platform :: "(request \<Rightarrow> error + response) \<Rightarrow> platform" where
  "stub_platform t =
     \<lparr>environ = [''TEAMCITY_ADDR'' \<mapsto> ''http://localhost:8111''],
      transport = t,
      DumpRequest = (\<lambda>req. ((req_method req @ '' '' @ req_url req, None), req)),
      DumpResponse = (\<lambda>resp. ((Status resp, None), resp)),
      LocatorID = (\<lambda>id'. ''id:'' @ id')\<rparr>"

text \<open>
  Transports for concrete runs: a stub server that answers every request with the
  given status code, status line and body, and a machine that refuses connections.
\<close>

definition stub_server ::
  "int \<Rightarrow> string \<Rightarrow> string \<times> error option \<Rightarrow> request \<Rightarrow> error + response" where
  "stub_server code line body req = Inr \<lparr>StatusCode = code, Status = line, resp_Body = body\<rparr>"

definition refused :: "request \<Rightarrow> error + response" where
  "refused req = Inl (Foreign ''dial tcp 127.0.0.1:8111: connect: connection refused'')"




text \<open>
  The Client and the world that construction from the initial world yields for
  \<open>admin\<close>, \<open>secret\<close> and \<open>http://localhost:8111\<close>.
\<close>

definition example_world :: world where
  "example_world =
     \<lparr>DebugRequests = False, DebugResponses = False,
      slings = replicate 5 (root_template ''admin'' ''secret'' ''http://localhost:8111''),
      trace = []\<rparr>"

definition example_client :: Client where
  "example_client =
     \<lparr>userName = ''admin'', password = ''secret'', address = ''http://localhost:8111'',
      baseURI = [], HTTPClient = None, RetryTimeout = 0, commonBase = Some 0,
      Projects = Some (newProjectService 1 None),
      BuildTypes = Some (newBuildTypeService 2 None),
      Server = Some (newServerService 3),
      VcsRoots = Some (newVcsRootService 4 None),
      Parameters = None\<rparr>"

text \<open>
  What an operation hands back to its caller, without the world; and the requests
  that crossed the wire, in order, among the effects of a trace.
\<close>

definition outcome :: "panic + 'a \<times> world \<Rightarrow> panic + 'a" where
  "outcome r = map_sum id fst r"


text \<open>
  Two parameter services derived one after the other from the Client \<open>c\<close>, whose
  root template holds \<open>root\<close>, for the identifiers \<open>i1\<close> and \<open>i2\<close>, where \<open>path i\<close> is
  the path segment of identifier \<open>i\<close>. Both derivations return; each service points
  to a template of its own, which is not the root; each template has the root's URL
  followed by the path of its own identifier, and the root's headers; the two URLs
  and the two services differ; the root holds what it held before, after each
  derivation; the second derivation leaves the first service's template alone; and
  every template that existed before is as it was.
\<close>

definition derived_independently ::
  "(string \<Rightarrow> world \<Rightarrow> panic + ParameterService \<times> world) \<Rightarrow> Client \<Rightarrow> Sling \<Rightarrow>
   (string \<Rightarrow> string) \<Rightarrow> string \<Rightarrow> string \<Rightarrow> world \<Rightarrow> bool" where
  "derived_independently derive c root path i1 i2 w =
     (case derive i1 w of
        Inl x \<Rightarrow> False
      | Inr (s1, w1) \<Rightarrow>
          (case derive i2 w1 of
             Inl x \<Rightarrow> False
           | Inr (s2, w2) \<Rightarrow>
               map_option rawURL (deref w2 (base s1)) = Some (rawURL root @ path i1) \<and>
               map_option rawURL (deref w2 (base s2)) = Some (rawURL root @ path i2) \<and>
               map_option rawURL (deref w2 (base s1)) \<noteq> map_option rawURL (deref w2 (base s2)) \<and>
               map_option header (deref w2 (base s1)) = Some (header root) \<and>
               map_option header (deref w2 (base s2)) = Some (header root) \<and>
               s1 \<noteq> s2 \<and> base s1 \<noteq> commonBase c \<and> base s2 \<noteq> commonBase c \<and>
               deref w1 (commonBase c) = Some root \<and> deref w2 (commonBase c) = Some root \<and>
               deref w2 (base s1) = deref w1 (base s1) \<and>
               take (length (slings w)) (slings w2) = slings w))"

section \<open>Properties\<close>

subsection \<open>Construction and derivation in closed form\<close>

lemma newClientInstance_result:
  "newClientInstance u pw a h w =
     Inr (Inr \<lparr>userName = u, password = pw, address = a, baseURI = [], HTTPClient = h,
               RetryTimeout = 0, commonBase = Some (length (slings w)),
               Projects = Some (newProjectService (length (slings w) + 1) h),
               BuildTypes = Some (newBuildTypeService (length (slings w) + 2) h),
               Server = Some (newServerService (length (slings w) + 3)),
               VcsRoots = Some (newVcsRootService (length (slings w) + 4) h),
               Parameters = None\<rparr>,
          w\<lparr>slings := slings w @ replicate 5 (root_template u pw a)\<rparr>)"
  by (simp add: newClientInstance_def bind_def ret_def sling_New_def alloc_def through_def
      store_def Sling_New_def Sling_Base_def Sling_Set_def Sling_SetBasicAuth_def
      root_template_def nth_append numeral_eq_Suc)

lemma example_construction:
  "NewWithAddress ''admin'' ''secret'' ''http://localhost:8111'' None initial_world =
     Inr (Inr example_client, example_world)"
  by (simp add: NewWithAddress_def newClientInstance_result initial_world_def
      example_client_def example_world_def newProjectService_def newBuildTypeService_def
      newServerService_def newVcsRootService_def)

lemma Sling_New_result:
  "deref w r = Some s \<Longrightarrow>
   Sling_New r w = Inr (length (slings w), w\<lparr>slings := slings w @ [s]\<rparr>)"
  by (simp add: Sling_New_def alloc_def)

lemma derive_with_path:
  "deref w r = Some s \<Longrightarrow>
   bind (Sling_New r) (\<lambda>s1. bind (through (Sling_Path path) s1) (\<lambda>s2. ret (f s2))) w =
     Inr (f (length (slings w)), w\<lparr>slings := slings w @ [Sling_Path path s]\<rparr>)"
  by (simp add: Sling_New_result bind_def ret_def through_def store_def)

lemma constructed:
  assumes "NewWithAddress u pw a h w = Inr (Inr c, w') \<or>
           (os_Getenv p ''TEAMCITY_ADDR'' = a \<and> New p u pw h w = Inr (Inr c, w'))"
  shows "newClientInstance u pw a h w = Inr (Inr c, w')"
  using assms by (auto simp: NewWithAddress_def New_def Let_def split: if_splits)

lemma example_root:
  "deref example_world (commonBase example_client) =
     Some (root_template ''admin'' ''secret'' ''http://localhost:8111'')"
  by (simp add: example_world_def example_client_def)

lemma ProjectParameterService_result:
  "deref w (commonBase c) = Some root \<Longrightarrow>
   ProjectParameterService p c i w =
     Inr (\<lparr>base = Some (length (slings w))\<rparr>,
          w\<lparr>slings := slings w @ [Sling_Path (''projects/'' @ LocatorID p i @ ''/'') root]\<rparr>)"
  by (simp add: ProjectParameterService_def derive_with_path)

lemma BuildTypeParameterService_result:
  "deref w (commonBase c) = Some root \<Longrightarrow>
   BuildTypeParameterService p c i w =
     Inr (\<lparr>base = Some (length (slings w))\<rparr>,
          w\<lparr>slings := slings w @ [Sling_Path (''buildTypes/'' @ LocatorID p i @ ''/'') root]\<rparr>)"
  by (simp add: BuildTypeParameterService_def derive_with_path)

lemma deref_after_alloc:
  "deref w r = Some s \<Longrightarrow> deref (w\<lparr>slings := slings w @ [t]\<rparr>) r = Some s"
  by (cases r) (auto simp: nth_append split: if_splits)

text \<open>Two derivations in a row from the same Client, whatever the path segment.\<close>

lemma two_derivations:
  assumes root: "deref w (commonBase c) = Some root"
      and d: "\<And>i v. derive i v =
                 bind (Sling_New (commonBase c)) (\<lambda>s1.
                 bind (through (Sling_Path (f i)) s1) (\<lambda>s2. ret \<lparr>base = Some s2\<rparr>)) v"
      and ne: "f i1 \<noteq> f i2"
  shows "derived_independently derive c root f i1 i2 w"
proof -
  let ?w1 = "w\<lparr>slings := slings w @ [Sling_Path (f i1) root]\<rparr>"
  let ?w2 = "?w1\<lparr>slings := slings ?w1 @ [Sling_Path (f i2) root]\<rparr>"
  have root1: "deref ?w1 (commonBase c) = Some root"
    by (rule deref_after_alloc [OF root])
  have root2: "deref ?w2 (commonBase c) = Some root"
    by (rule deref_after_alloc [OF root1])
  have lt: "commonBase c \<noteq> Some (length (slings w))"
      "commonBase c \<noteq> Some (Suc (length (slings w)))"
    using root by (cases "commonBase c"; simp split: if_splits)+
  have 1: "derive i1 w = Inr (\<lparr>base = Some (length (slings w))\<rparr>, ?w1)"
    by (simp add: d derive_with_path [OF root])
  have 2: "derive i2 ?w1 = Inr (\<lparr>base = Some (Suc (length (slings w)))\<rparr>, ?w2)"
    by (simp add: d derive_with_path [OF root1])
  have 3: "deref ?w2 (Some (length (slings w))) = Some (Sling_Path (f i1) root)"
      "deref ?w1 (Some (length (slings w))) = Some (Sling_Path (f i1) root)"
      "deref ?w2 (Some (Suc (length (slings w)))) = Some (Sling_Path (f i2) root)"
    by (simp_all add: nth_append)
  have 4: "take (length (slings w)) (slings ?w2) = slings w"
    by simp
  show ?thesis
    unfolding derived_independently_def
    using ne lt root1 root2 4
    apply (simp only: 1 2 3 ParameterService.simps sum.case prod.case)
    apply (simp add: Sling_Path_def)
    done
qed

lemma derived_independentlyD:
  assumes "derived_independently derive c root path i1 i2 w"
  shows "\<exists>s1 w1 s2 w2.
           derive i1 w = Inr (s1, w1) \<and> derive i2 w1 = Inr (s2, w2) \<and>
           map_option rawURL (deref w2 (base s1)) = Some (rawURL root @ path i1) \<and>
           map_option rawURL (deref w2 (base s2)) = Some (rawURL root @ path i2) \<and>
           s1 \<noteq> s2 \<and> deref w2 (commonBase c) = Some root"
proof -
  from assms obtain s1 w1 where 1: "derive i1 w = Inr (s1, w1)"
    by (cases "derive i1 w") (auto simp: derived_independently_def)
  from assms 1 obtain s2 w2 where 2: "derive i2 w1 = Inr (s2, w2)"
    by (cases "derive i2 w1") (auto simp: derived_independently_def)
  from assms [unfolded derived_independently_def 1 2 sum.case prod.case] 1 2
  show ?thesis
    by blast
qed

subsection \<open>Tracing and validation in closed form\<close>


lemma debug_trace:
  "trace (debug r w) =
     trace w @ [case snd r of
                  None \<Rightarrow> Stdout (fst r @ [CHR 0x0A, CHR 0x0A])
                | Some err \<Rightarrow> LogPrintf (''[ERROR] '' @ Error err @ [CHR 0x0A, CHR 0x0A])]"
  by (simp add: debug_def emit_def split: option.splits)


lemma debug_flags:
  "DebugRequests (debug r w) = DebugRequests w" "DebugResponses (debug r w) = DebugResponses w"
  "slings (debug r w) = slings w"
  by (simp_all add: debug_def emit_def split: option.splits)

lemma emit_flags:
  "DebugRequests (emit e w) = DebugRequests w" "DebugResponses (emit e w) = DebugResponses w"
  "slings (emit e w) = slings w"
  by (simp_all add: emit_def)

lemma LogRequest_unfold:
  "LogRequest p req w =
     (if DebugRequests w
      then (snd (DumpRequest p req), debug (fst (DumpRequest p req)) w)
      else (req, w))"
  by (simp add: LogRequest_def split: prod.splits)

lemma LogResponse_unfold:
  "LogResponse p resp w =
     (if DebugResponses w
      then (snd (DumpResponse p resp), debug (fst (DumpResponse p resp)) w)
      else (resp, w))"
  by (simp add: LogResponse_def split: prod.splits)

lemma LogRequest_reads:
  "count_list (trace (snd (LogRequest p req w))) ReadAll = count_list (trace w) ReadAll"
  by (simp add: LogRequest_unfold debug_trace split: option.splits)



lemma RoundTrip_result:
  "RoundTrip p req w =
     (case transport p (fst (LogRequest p req w)) of
        Inl err \<Rightarrow>
          (Inl err, emit (Wire (fst (LogRequest p req w))) (snd (LogRequest p req w)))
      | Inr resp \<Rightarrow>
          (Inr (fst (LogResponse p resp
                  (emit (Wire (fst (LogRequest p req w))) (snd (LogRequest p req w))))),
           snd (LogResponse p resp
                  (emit (Wire (fst (LogRequest p req w))) (snd (LogRequest p req w))))))"
  by (simp add: RoundTrip_def split: prod.splits sum.splits)


lemma Validate_result:
  "deref w (commonBase c) = Some root \<Longrightarrow>
   Validate p c w =
     (case RoundTrip p (Sling_Get ''server'' root) w of
        (Inl err, w1) \<Rightarrow> Inr ((False, Some err), w1)
      | (Inr resp, w1) \<Rightarrow>
          if StatusCode resp = 200 \<or> StatusCode resp = 403 then Inr ((True, None), w1)
          else Inr ((False,
                     Some (case snd (resp_Body resp) of
                             None \<Rightarrow> Errorf (''API error '' @ Status resp @ '': '' @
                                       fst (resp_Body resp))
                           | Some err \<Rightarrow> err)),
                    emit ReadAll w1))"
  by (cases "resp_Body (projr (fst (RoundTrip p (Sling_Get ''server'' root) w)))")
     (auto simp: Validate_def ReceiveSuccess_def ioutil_ReadAll_def
       split: prod.splits sum.splits option.splits)

subsection \<open>Client construction\<close>

text \<open>
  C1. Construction fails exactly when the address is empty, through either entry
  point: \<^verbatim>\<open>NewWithAddress\<close> with an empty address argument and \<^verbatim>\<open>New\<close> with the
  variable \<^verbatim>\<open>TEAMCITY_ADDR\<close> unset (or set to the empty string) return the
  configuration error built on the spot and leave the world as it was. For every
  other address construction returns a Client and no error, the default services
  are populated, and nothing is added to the trace of effects: no request crosses
  the wire.
\<close>

theorem construction_fails_iff_address_empty:
  "((\<exists>e w'. NewWithAddress u pw a h w = Inr (Inl e, w')) \<longleftrightarrow> a = []) \<and>
   ((\<exists>e w'. New p u pw h w = Inr (Inl e, w')) \<longleftrightarrow> os_Getenv p ''TEAMCITY_ADDR'' = []) \<and>
   (environ p ''TEAMCITY_ADDR'' = None \<longrightarrow> os_Getenv p ''TEAMCITY_ADDR'' = []) \<and>
   (a = [] \<longrightarrow> NewWithAddress u pw a h w = Inr (Inl (Errorf ''address is required''), w)) \<and>
   (os_Getenv p ''TEAMCITY_ADDR'' = [] \<longrightarrow>
      New p u pw h w =
        Inr (Inl (Errorf (''TEAMCITY_ADDR environment variable not set, specify address ''
               @ ''explicit by setting the variable or using NewWithAddress constructor'')),
             w)) \<and>
   (a \<noteq> [] \<longrightarrow>
      (\<exists>c w'. NewWithAddress u pw a h w = Inr (Inr c, w') \<and> trace w' = trace w \<and>
         default_services_populated c)) \<and>
   (os_Getenv p ''TEAMCITY_ADDR'' \<noteq> [] \<longrightarrow>
      (\<exists>c w'. New p u pw h w = Inr (Inr c, w') \<and> trace w' = trace w \<and>
         default_services_populated c))"
  by (simp add: NewWithAddress_def New_def Let_def newClientInstance_result os_Getenv_def
      default_services_populated_def)

theorem construction_fails_iff_address_empty_witness:
  "NewWithAddress ''admin'' ''secret'' [] None initial_world =
     Inr (Inl (Errorf ''address is required''), initial_world) \<and>
   (\<exists>msg. New (stub_platform refused\<lparr>environ := Map.empty\<rparr>) ''admin'' ''secret'' None initial_world =
     Inr (Inl (Errorf msg), initial_world)) \<and>
   (\<exists>c w'. NewWithAddress ''admin'' ''secret'' ''http://localhost:8111'' None initial_world =
      Inr (Inr c, w') \<and> trace w' = trace initial_world \<and> default_services_populated c) \<and>
   (\<exists>c w'. New (stub_platform refused) ''admin'' ''secret'' None initial_world =
      Inr (Inr c, w') \<and> trace w' = trace initial_world \<and> default_services_populated c)"
  using construction_fails_iff_address_empty
          [of "''admin''" "''secret''" "[]" None initial_world
              "stub_platform refused\<lparr>environ := Map.empty\<rparr>"]
        construction_fails_iff_address_empty
          [of "''admin''" "''secret''" "''http://localhost:8111''" None initial_world
              "stub_platform refused"]
  by (simp add: os_Getenv_def stub_platform_def)

subsection \<open>Validation\<close>

text \<open>
  C2, as the code has it. For every response that \<^verbatim>\<open>Validate\<close> receives from
  \<^verbatim>\<open>ReceiveSuccess\<close>: with status
  code 200 or 403 it returns \<^verbatim>\<open>(true, nil)\<close> and does not read the body; with any
  other status code it reads the body and returns \<^verbatim>\<open>false\<close> with an error, which is
  the API error \<open>API error <status line>: <body>\<close> when the read succeeds and the
  error of the read when it fails.
\<close>

theorem Validate_by_status:
  assumes "deref w (commonBase c) = Some root"
      and "fst (ReceiveSuccess p (Sling_Get ''server'' root) w) = Inr resp"
  shows "Validate p c w =
     Inr (if StatusCode resp = 200 \<or> StatusCode resp = 403
          then ((True, None), snd (RoundTrip p (Sling_Get ''server'' root) w))
          else ((False,
                 Some (case snd (resp_Body resp) of
                         None \<Rightarrow> Errorf (''API error '' @ Status resp @ '': '' @
                                   fst (resp_Body resp))
                       | Some err \<Rightarrow> err)),
                emit ReadAll (snd (RoundTrip p (Sling_Get ''server'' root) w))))"
proof -
  obtain r w1 where rt: "RoundTrip p (Sling_Get ''server'' root) w = (r, w1)"
    by (cases "RoundTrip p (Sling_Get ''server'' root) w")
  with assms(2) have "r = Inr resp"
    by (simp add: ReceiveSuccess_def)
  with rt show ?thesis
    by (simp add: Validate_result [OF assms(1)])
qed

theorem Validate_by_status_witness:
  "outcome (Validate (stub_platform (stub_server 200 ''200 OK'' ([], None)))
     example_client example_world) = Inr (True, None) \<and>
   outcome (Validate (stub_platform (stub_server 403 ''403 Forbidden'' (''denied'', None)))
     example_client example_world) = Inr (True, None) \<and>
   outcome (Validate
     (stub_platform (stub_server 500 ''500 Internal Server Error'' (''boom'', None)))
     example_client example_world) =
       Inr (False, Some (Errorf ''API error 500 Internal Server Error: boom''))"
  using Validate_by_status [OF example_root,
          of "stub_platform (stub_server 200 ''200 OK'' ([], None))"
             "\<lparr>StatusCode = 200, Status = ''200 OK'', resp_Body = ([], None)\<rparr>"]
        Validate_by_status [OF example_root,
          of "stub_platform (stub_server 403 ''403 Forbidden'' (''denied'', None))"
             "\<lparr>StatusCode = 403, Status = ''403 Forbidden'', resp_Body = (''denied'', None)\<rparr>"]
        Validate_by_status [OF example_root,
          of "stub_platform (stub_server 500 ''500 Internal Server Error'' (''boom'', None))"
             "\<lparr>StatusCode = 500, Status = ''500 Internal Server Error'',
               resp_Body = (''boom'', None)\<rparr>"]
  by (simp add: outcome_def stub_platform_def stub_server_def ReceiveSuccess_def
      RoundTrip_def LogRequest_def LogResponse_def example_world_def)

text \<open>
  C2, as the claim states it, fails where reading the body fails: a response with
  status 500 whose body breaks off after \<open>bo\<close> makes \<^verbatim>\<open>Validate\<close> return the reader's
  error, whose message is neither the API error nor holds the status line.
\<close>

theorem Validate_body_read_failure_counterexample:
  "outcome (Validate
      (stub_platform (stub_server 500 ''500 Internal Server Error''
         (''bo'', Some (Foreign ''unexpected EOF''))))
      example_client example_world) = Inr (False, Some (Foreign ''unexpected EOF'')) \<and>
   Foreign ''unexpected EOF'' \<noteq> Errorf ''API error 500 Internal Server Error: bo'' \<and>
   Error (Foreign ''unexpected EOF'') = ''unexpected EOF''"
  using Validate_result [OF example_root,
          of "stub_platform (stub_server 500 ''500 Internal Server Error''
                (''bo'', Some (Foreign ''unexpected EOF'')))"]
  by (simp add: outcome_def RoundTrip_def LogRequest_def LogResponse_def example_world_def
      stub_platform_def stub_server_def)

text \<open>
  C3. When the transport fails on the request that reaches it, \<^verbatim>\<open>Validate\<close> returns
  \<^verbatim>\<open>false\<close> together with the transport's own error, unchanged. The world it leaves
  is the one after the request hook and the attempt on the wire: no body has been
  read.
\<close>

theorem Validate_transport_failure:
  assumes "deref w (commonBase c) = Some root"
      and "transport p (fst (LogRequest p (Sling_Get ''server'' root) w)) = Inl err"
  shows "\<exists>w'. Validate p c w = Inr ((False, Some err), w') \<and>
           w' = emit (Wire (fst (LogRequest p (Sling_Get ''server'' root) w)))
                  (snd (LogRequest p (Sling_Get ''server'' root) w)) \<and>
           count_list (trace w') ReadAll = count_list (trace w) ReadAll"
  using assms
  by (simp add: Validate_result RoundTrip_result emit_def LogRequest_reads)

theorem Validate_transport_failure_witness:
  "\<exists>w'. Validate (stub_platform refused) example_client example_world =
           Inr ((False,
                 Some (Foreign ''dial tcp 127.0.0.1:8111: connect: connection refused'')), w') \<and>
         count_list (trace w') ReadAll = count_list (trace example_world) ReadAll"
  using Validate_transport_failure [OF example_root, of "stub_platform refused"
          "Foreign ''dial tcp 127.0.0.1:8111: connect: connection refused''"]
  by (simp add: stub_platform_def refused_def)

subsection \<open>The root template and the services\<close>

text \<open>
  C4. After a successful construction with address \<open>a\<close>, user name \<open>u\<close> and
  password \<open>pw\<close>, through either entry point, the Client's root template has the URL
  \<open>a\<close> followed by \<open>/httpAuth/app/rest/\<close>, the Basic authentication header of
  \<open>(u, pw)\<close> and the header \<open>Accept: application/json\<close>, and no other header.
  Construction allocates five templates: the root, and after it one clone with the
  root's state for each of Projects, BuildTypes, Server and VcsRoots, in this order.
\<close>

theorem root_template_and_clones:
  assumes "NewWithAddress u pw a h w = Inr (Inr c, w') \<or>
           (os_Getenv p ''TEAMCITY_ADDR'' = a \<and> New p u pw h w = Inr (Inr c, w'))"
  shows "\<exists>root. deref w' (commonBase c) = Some root \<and>
           rawURL root = a @ ''/httpAuth/app/rest/'' \<and>
           header root ''Authorization'' = Some (''Basic '' @ basicAuth u pw) \<and>
           header root ''Accept'' = Some ''application/json'' \<and>
           dom (header root) = {''Authorization'', ''Accept''} \<and>
           slings w' = slings w @ replicate 5 root \<and>
           commonBase c = Some (length (slings w)) \<and>
           Projects c = Some (newProjectService (length (slings w) + 1) h) \<and>
           BuildTypes c = Some (newBuildTypeService (length (slings w) + 2) h) \<and>
           Server c = Some (newServerService (length (slings w) + 3)) \<and>
           VcsRoots c = Some (newVcsRootService (length (slings w) + 4) h)"
proof -
  from constructed [OF assms]
  have c: "commonBase c = Some (length (slings w))"
      "Projects c = Some (newProjectService (length (slings w) + 1) h)"
      "BuildTypes c = Some (newBuildTypeService (length (slings w) + 2) h)"
      "Server c = Some (newServerService (length (slings w) + 3))"
      "VcsRoots c = Some (newVcsRootService (length (slings w) + 4) h)"
    and w': "w' = w\<lparr>slings := slings w @ replicate 5 (root_template u pw a)\<rparr>"
    by (auto simp: newClientInstance_result)
  have root: "deref w' (commonBase c) = Some (root_template u pw a)"
    by (simp add: c(1) w' nth_append)
  have d: "dom (header (root_template u pw a)) = {''Authorization'', ''Accept''}"
    by (auto simp: root_template_def)
  have "rawURL (root_template u pw a) = a @ ''/httpAuth/app/rest/''"
       "header (root_template u pw a) ''Authorization'' = Some (''Basic '' @ basicAuth u pw)"
       "header (root_template u pw a) ''Accept'' = Some ''application/json''"
       "slings w' = slings w @ replicate 5 (root_template u pw a)"
    by (simp_all add: root_template_def w')
  with root d c show ?thesis
    by blast
qed

theorem root_template_and_clones_witness:
  "\<exists>root. deref example_world (commonBase example_client) = Some root \<and>
      rawURL root = ''http://localhost:8111/httpAuth/app/rest/'' \<and>
      header root ''Authorization'' = Some ''Basic YWRtaW46c2VjcmV0'' \<and>
      header root ''Accept'' = Some ''application/json'' \<and>
      slings example_world = replicate 5 root \<and>
      Option.bind (Projects example_client) svc_sling = Some 1 \<and>
      Option.bind (BuildTypes example_client) svc_sling = Some 2 \<and>
      Option.bind (Server example_client) server_sling = Some 3 \<and>
      Option.bind (VcsRoots example_client) svc_sling = Some 4"
proof -
  have b: "basicAuth ''admin'' ''secret'' = ''YWRtaW46c2VjcmV0''"
    by (simp add: basicAuth_def b64char_def b64chars_def)
  from root_template_and_clones [OF disjI1, OF example_construction]
  obtain root where
      "deref example_world (commonBase example_client) = Some root"
      "rawURL root = ''http://localhost:8111'' @ ''/httpAuth/app/rest/''"
      "header root ''Authorization'' = Some (''Basic '' @ basicAuth ''admin'' ''secret'')"
      "header root ''Accept'' = Some ''application/json''"
      "slings example_world = slings initial_world @ replicate 5 root"
      "Projects example_client =
         Some (newProjectService (length (slings initial_world) + 1) None)"
      "BuildTypes example_client =
         Some (newBuildTypeService (length (slings initial_world) + 2) None)"
      "Server example_client = Some (newServerService (length (slings initial_world) + 3))"
      "VcsRoots example_client =
         Some (newVcsRootService (length (slings initial_world) + 4) None)"
    by blast
  then show ?thesis
    by (simp add: b initial_world_def newProjectService_def newBuildTypeService_def
        newServerService_def newVcsRootService_def)
qed

text \<open>
  C5. A constructed Client has no Parameters service: the field is nil. A parameter
  service comes from \<^verbatim>\<open>ProjectParameterService\<close> or \<^verbatim>\<open>BuildTypeParameterService\<close>, called
  with an identifier; each call returns a service whose template has the root URL
  followed by \<open>projects/\<close> or \<open>buildTypes/\<close>, the locator of the identifier and a
  slash.
\<close>

theorem Parameters_only_identifier_scoped:
  assumes "NewWithAddress u pw a h w = Inr (Inr c, w') \<or>
           (os_Getenv p ''TEAMCITY_ADDR'' = a \<and> New p u pw h w = Inr (Inr c, w'))"
  shows "Parameters c = None \<and>
         (\<exists>s w''. ProjectParameterService q c i w' = Inr (s, w'') \<and>
            map_option rawURL (deref w'' (base s)) =
              Some (a @ ''/httpAuth/app/rest/'' @ ''projects/'' @ LocatorID q i @ ''/'')) \<and>
         (\<exists>s w''. BuildTypeParameterService q c i w' = Inr (s, w'') \<and>
            map_option rawURL (deref w'' (base s)) =
              Some (a @ ''/httpAuth/app/rest/'' @ ''buildTypes/'' @ LocatorID q i @ ''/''))"
proof -
  from constructed [OF assms]
  have c: "Parameters c = None" "commonBase c = Some (length (slings w))"
    and w': "w' = w\<lparr>slings := slings w @ replicate 5 (root_template u pw a)\<rparr>"
    by (auto simp: newClientInstance_result)
  have root: "deref w' (commonBase c) = Some (root_template u pw a)"
    by (simp add: c w' nth_append)
  show ?thesis
    by (simp add: c(1) ProjectParameterService_result [OF root]
        BuildTypeParameterService_result [OF root] Sling_Path_def root_template_def)
qed

theorem Parameters_only_identifier_scoped_witness:
  "Parameters example_client = None \<and>
   (\<exists>s w''. ProjectParameterService (stub_platform refused) example_client ''proj1''
              example_world = Inr (s, w'') \<and>
      map_option rawURL (deref w'' (base s)) =
        Some ''http://localhost:8111/httpAuth/app/rest/projects/id:proj1/'') \<and>
   (\<exists>s w''. BuildTypeParameterService (stub_platform refused) example_client ''bt1''
              example_world = Inr (s, w'') \<and>
      map_option rawURL (deref w'' (base s)) =
        Some ''http://localhost:8111/httpAuth/app/rest/buildTypes/id:bt1/'')"
  using Parameters_only_identifier_scoped [OF disjI1, OF example_construction,
          of "stub_platform refused" "''proj1''"]
        Parameters_only_identifier_scoped [OF disjI1, OF example_construction,
          of "stub_platform refused" "''bt1''"]
  by (simp add: stub_platform_def)

text \<open>
  C6. For a Client whose root template exists, a locator function that maps
  distinct identifiers to distinct locators, and two distinct identifiers: the two
  project parameter services derived one after the other are independent in the
  sense of \<open>derived_independently\<close>, with the path \<open>projects/<locator>/\<close>, and so are
  the two build-type parameter services, with the path \<open>buildTypes/<locator>/\<close>.
\<close>

theorem derived_services_independent:
  assumes "deref w (commonBase c) = Some root"
      and "inj (LocatorID p)"
      and "id1 \<noteq> id2"
  shows "derived_independently (ProjectParameterService p c) c root
           (\<lambda>i. ''projects/'' @ LocatorID p i @ ''/'') id1 id2 w \<and>
         derived_independently (BuildTypeParameterService p c) c root
           (\<lambda>i. ''buildTypes/'' @ LocatorID p i @ ''/'') id1 id2 w"
proof -
  from assms(2,3) have ne: "LocatorID p id1 \<noteq> LocatorID p id2"
    by (simp add: inj_eq)
  have dP: "\<And>i v. ProjectParameterService p c i v =
               bind (Sling_New (commonBase c)) (\<lambda>s1.
               bind (through (Sling_Path (''projects/'' @ LocatorID p i @ ''/'')) s1)
                 (\<lambda>s2. ret \<lparr>base = Some s2\<rparr>)) v"
    by (simp add: ProjectParameterService_def)
  have dB: "\<And>i v. BuildTypeParameterService p c i v =
               bind (Sling_New (commonBase c)) (\<lambda>s1.
               bind (through (Sling_Path (''buildTypes/'' @ LocatorID p i @ ''/'')) s1)
                 (\<lambda>s2. ret \<lparr>base = Some s2\<rparr>)) v"
    by (simp add: BuildTypeParameterService_def)
  have neP: "''projects/'' @ LocatorID p id1 @ ''/'' \<noteq> ''projects/'' @ LocatorID p id2 @ ''/''"
    and neB: "''buildTypes/'' @ LocatorID p id1 @ ''/'' \<noteq>
              ''buildTypes/'' @ LocatorID p id2 @ ''/''"
    using ne by simp_all
  have P: "derived_independently (ProjectParameterService p c) c root
             (\<lambda>i. ''projects/'' @ LocatorID p i @ ''/'') id1 id2 w"
    by (rule two_derivations [where derive = "ProjectParameterService p c"
          and f = "\<lambda>i. ''projects/'' @ LocatorID p i @ ''/''", OF assms(1) dP neP])
  have B: "derived_independently (BuildTypeParameterService p c) c root
             (\<lambda>i. ''buildTypes/'' @ LocatorID p i @ ''/'') id1 id2 w"
    by (rule two_derivations [where derive = "BuildTypeParameterService p c"
          and f = "\<lambda>i. ''buildTypes/'' @ LocatorID p i @ ''/''", OF assms(1) dB neB])
  from P B show ?thesis
    by (rule conjI)
qed

theorem derived_services_independent_witness:
  "\<exists>s1 w1 s2 w2.
     ProjectParameterService (stub_platform refused) example_client ''proj1'' example_world =
       Inr (s1, w1) \<and>
     ProjectParameterService (stub_platform refused) example_client ''proj2'' w1 =
       Inr (s2, w2) \<and>
     map_option rawURL (deref w2 (base s1)) =
       Some ''http://localhost:8111/httpAuth/app/rest/projects/id:proj1/'' \<and>
     map_option rawURL (deref w2 (base s2)) =
       Some ''http://localhost:8111/httpAuth/app/rest/projects/id:proj2/'' \<and>
     s1 \<noteq> s2 \<and>
     deref w2 (commonBase example_client) =
       Some (root_template ''admin'' ''secret'' ''http://localhost:8111'')"
proof -
  have i: "inj (LocatorID (stub_platform refused))"
    by (simp add: stub_platform_def inj_def)
  have n: "''proj1'' \<noteq> ''proj2''"
    by simp
  from derived_independentlyD
         [OF conjunct1 [OF derived_services_independent [OF example_root i n]]]
  show ?thesis
    by (simp add: root_template_def stub_platform_def)
qed

subsection \<open>Tracing\<close>

text \<open>
  C7. Both flags are off at program start. For a request that goes through the
  interceptor: with only \<open>DebugRequests\<close> on, the effects are the dump of the request
  and the request on the wire, as the serializer left it, and nothing for the
  response; with only
  \<open>DebugResponses\<close> on, they are the request on the wire and the dump of the response
  that came back (nothing more when the transport fails); with both off, the request
  on the wire is the only effect. A round trip leaves both flags as they were.
\<close>

theorem tracing_flags_gate_independently:
  "\<not> DebugRequests initial_world \<and> \<not> DebugResponses initial_world \<and>
   (DebugRequests w \<and> \<not> DebugResponses w \<longrightarrow>
      snd (RoundTrip p req w) =
        emit (Wire (snd (DumpRequest p req))) (debug (fst (DumpRequest p req)) w)) \<and>
   (\<not> DebugRequests w \<and> DebugResponses w \<and> transport p req = Inr resp \<longrightarrow>
      snd (RoundTrip p req w) = debug (fst (DumpResponse p resp)) (emit (Wire req) w)) \<and>
   (\<not> DebugRequests w \<and> DebugResponses w \<and> transport p req = Inl err \<longrightarrow>
      snd (RoundTrip p req w) = emit (Wire req) w) \<and>
   (\<not> DebugRequests w \<and> \<not> DebugResponses w \<longrightarrow>
      snd (RoundTrip p req w) = emit (Wire req) w) \<and>
   DebugRequests (snd (RoundTrip p req w)) = DebugRequests w \<and>
   DebugResponses (snd (RoundTrip p req w)) = DebugResponses w"
  by (simp add: initial_world_def RoundTrip_result LogRequest_unfold LogResponse_unfold
      debug_flags emit_flags split: sum.splits)

theorem tracing_flags_gate_independently_witness:
  "trace (snd (RoundTrip (stub_platform (stub_server 200 ''200 OK'' (''{}'', None)))
     \<lparr>req_method = ''GET'', req_url = ''http://localhost:8111/x'', req_header = Map.empty\<rparr>
     (example_world\<lparr>DebugRequests := True\<rparr>))) =
     [Stdout (''GET http://localhost:8111/x'' @ [CHR 0x0A, CHR 0x0A]),
      Wire \<lparr>req_method = ''GET'', req_url = ''http://localhost:8111/x'',
            req_header = Map.empty\<rparr>] \<and>
   trace (snd (RoundTrip (stub_platform (stub_server 200 ''200 OK'' (''{}'', None)))
     \<lparr>req_method = ''GET'', req_url = ''http://localhost:8111/x'', req_header = Map.empty\<rparr>
     (example_world\<lparr>DebugResponses := True\<rparr>))) =
     [Wire \<lparr>req_method = ''GET'', req_url = ''http://localhost:8111/x'',
            req_header = Map.empty\<rparr>,
      Stdout (''200 OK'' @ [CHR 0x0A, CHR 0x0A])] \<and>
   trace (snd (RoundTrip (stub_platform (stub_server 200 ''200 OK'' (''{}'', None)))
     \<lparr>req_method = ''GET'', req_url = ''http://localhost:8111/x'', req_header = Map.empty\<rparr>
     example_world)) =
     [Wire \<lparr>req_method = ''GET'', req_url = ''http://localhost:8111/x'',
            req_header = Map.empty\<rparr>]"
  using tracing_flags_gate_independently
          [of "example_world\<lparr>DebugRequests := True\<rparr>"
              "stub_platform (stub_server 200 ''200 OK'' (''{}'', None))"
              "\<lparr>req_method = ''GET'', req_url = ''http://localhost:8111/x'',
                req_header = Map.empty\<rparr>"]
        tracing_flags_gate_independently
          [of "example_world\<lparr>DebugResponses := True\<rparr>"
              "stub_platform (stub_server 200 ''200 OK'' (''{}'', None))"
              "\<lparr>req_method = ''GET'', req_url = ''http://localhost:8111/x'',
                req_header = Map.empty\<rparr>"
              "\<lparr>StatusCode = 200, Status = ''200 OK'', resp_Body = (''{}'', None)\<rparr>"]
        tracing_flags_gate_independently
          [of example_world
              "stub_platform (stub_server 200 ''200 OK'' (''{}'', None))"
              "\<lparr>req_method = ''GET'', req_url = ''http://localhost:8111/x'',
                req_header = Map.empty\<rparr>"]
  by (simp add: example_world_def stub_platform_def stub_server_def debug_def emit_def)




subsection \<open>The retry timeout\<close>

text \<open>
  C9. Two Clients that differ in \<open>RetryTimeout\<close> only behave alike: each of the six
  service derivations and \<^verbatim>\<open>Validate\<close> returns the same result and leaves the same
  world, which holds the request that was built and sent.
\<close>

theorem RetryTimeout_not_wired:
  "AgentRequirementService (c\<lparr>RetryTimeout := d\<rparr>) i w = AgentRequirementService c i w \<and>
   BuildFeatureService (c\<lparr>RetryTimeout := d\<rparr>) i w = BuildFeatureService c i w \<and>
   ProjectParameterService p (c\<lparr>RetryTimeout := d\<rparr>) i w = ProjectParameterService p c i w \<and>
   BuildTypeParameterService p (c\<lparr>RetryTimeout := d\<rparr>) i w =
     BuildTypeParameterService p c i w \<and>
   DependencyService (c\<lparr>RetryTimeout := d\<rparr>) i w = DependencyService c i w \<and>
   TriggerService (c\<lparr>RetryTimeout := d\<rparr>) i w = TriggerService c i w \<and>
   Validate p (c\<lparr>RetryTimeout := d\<rparr>) w = Validate p c w"
  by (simp add: AgentRequirementService_def BuildFeatureService_def
      ProjectParameterService_def BuildTypeParameterService_def DependencyService_def
      TriggerService_def Validate_def)

subsection \<open>The plain-text body provider\<close>

text \<open>
  C10. \<^verbatim>\<open>ContentType\<close> is \<open>text/plain; charset=utf-8\<close> for every provider. With a
  string payload \<^verbatim>\<open>Body\<close> returns a reader over exactly that string and a nil error;
  with a payload of any other dynamic type it panics on the type assertion. So
  \<^verbatim>\<open>Body\<close> returns exactly when the payload is a string.
\<close>

theorem textPlainBodyProvider_string_payload:
  "ContentType b = ''text/plain; charset=utf-8'' \<and>
   (payload b = GoString s \<longrightarrow> Body b = Inr (s, None)) \<and>
   ((\<forall>s. payload b \<noteq> GoString s) \<longrightarrow> Body b = Inl InterfaceConversion) \<and>
   ((\<exists>r. Body b = Inr r) \<longleftrightarrow> (\<exists>s. payload b = GoString s))"
  by (cases "payload b") (simp_all add: ContentType_def Body_def)

theorem textPlainBodyProvider_string_payload_witness:
  "ContentType \<lparr>payload = GoString ''refs/heads/main''\<rparr> = ''text/plain; charset=utf-8'' \<and>
   Body \<lparr>payload = GoString ''refs/heads/main''\<rparr> = Inr (''refs/heads/main'', None) \<and>
   Body \<lparr>payload = GoInt 42\<rparr> = Inl InterfaceConversion"
  using textPlainBodyProvider_string_payload
          [of "\<lparr>payload = GoString ''refs/heads/main''\<rparr>" "''refs/heads/main''"]
        textPlainBodyProvider_string_payload [of "\<lparr>payload = GoInt 42\<rparr>"]
  by simp

end
